theory Spec2Isabelle
  imports Complex_Main "HOL-Library.Sublist"
begin

section \<open>Values of the program\<close>

text \<open>
  A Python float is a finite value (kept exactly, as a rational), an infinity or a
  NaN. Negative zero compares and hashes like zero, so it is not kept apart.
\<close>

datatype pyfloat = Finite rat | PosInf | NegInf | NaN

text \<open>The comparison \<^verbatim>\<open>a <= b\<close> on floats: false as soon as one side is NaN.\<close>

fun float_le :: "pyfloat \<Rightarrow> pyfloat \<Rightarrow> bool" where
  "float_le NaN _ = False"
| "float_le _ NaN = False"
| "float_le NegInf _ = True"
| "float_le _ PosInf = True"
| "float_le PosInf _ = False"
| "float_le _ NegInf = False"
| "float_le (Finite a) (Finite b) = (a \<le> b)"

text \<open>The comparison \<^verbatim>\<open>a < b\<close> on floats.\<close>

fun float_lt :: "pyfloat \<Rightarrow> pyfloat \<Rightarrow> bool" where
  "float_lt NaN _ = False"
| "float_lt _ NaN = False"
| "float_lt PosInf _ = False"
| "float_lt _ NegInf = False"
| "float_lt NegInf _ = True"
| "float_lt _ PosInf = True"
| "float_lt (Finite a) (Finite b) = (a < b)"

text \<open>The only exception the module raises is \<^verbatim>\<open>ValueError\<close>, with its message.\<close>

datatype error = ValueError string

text \<open>\<^verbatim>\<open>str\<close> of a Python integer, as an f-string inserts it.\<close>

definition digit_char :: "nat \<Rightarrow> char" where
  "digit_char d = ''0123456789'' ! d"

fun str_nat :: "nat \<Rightarrow> string" where
  "str_nat n = (if n < 10 then [digit_char n] else str_nat (n div 10) @ [digit_char (n mod 10)])"

declare str_nat.simps [simp del]

definition str_int :: "int \<Rightarrow> string" where
  "str_int i = (if i < 0 then CHR ''-'' # str_nat (nat (- i)) else str_nat (nat i))"

section \<open>The single-coordinate function\<close>

text \<open>
  The body of \<^verbatim>\<open>_calculate_single_geohash\<close>, without its decorator. Two things it
  uses are not part of the repository and are taken as parameters: \<open>enc\<close> is
  \<^verbatim>\<open>pygeodesy.geohash.encode\<close>, and \<open>sf\<close> is the text an f-string inserts for a
  float. Both are functions of the value of a float, the encoder returning a string
  for every triple that passes the checks.
\<close>

definition calculate_single_geohash_body ::
  "(pyfloat \<Rightarrow> pyfloat \<Rightarrow> int \<Rightarrow> string) \<Rightarrow> (pyfloat \<Rightarrow> string) \<Rightarrow>
   pyfloat \<Rightarrow> pyfloat \<Rightarrow> int \<Rightarrow> error + string" where
  "calculate_single_geohash_body enc sf lat lon precision =
     (if \<not> (float_le (Finite (- 90)) lat \<and> float_le lat (Finite 90)) then
        Inl (ValueError (''Latitude must be between -90 and 90, got '' @ sf lat))
      else if \<not> (float_le (Finite (- 180)) lon \<and> float_le lon (Finite 180)) then
        Inl (ValueError (''Longitude must be between -180 and 180, got '' @ sf lon))
      else if \<not> (1 \<le> precision \<and> precision \<le> 12) then
        Inl (ValueError (''Precision must be between 1 and 12, got '' @ str_int precision))
      else Inr (enc lat lon precision))"

section \<open>The memoising decorator\<close>

text \<open>
  \<^verbatim>\<open>@lru_cache(maxsize=10000)\<close> wraps the whole function, its range checks included.
  The decorator belongs to the Python standard library; its behaviour is written out
  here. The cache holds the stored results, most recently used first, and the two
  counters that \<^verbatim>\<open>cache_info()\<close> reports. A call looks its arguments up first. A hit
  returns the stored result, moves the entry to the front and counts a hit. A miss
  counts a miss and runs the function; an exception leaves the function unstored,
  a result is stored at the front, and the least recently used entry is dropped when
  the cache was full.
\<close>

type_synonym key = "pyfloat \<times> pyfloat \<times> int"

record cache =
  entries :: "(key \<times> string) list"
  hits :: nat
  misses :: nat

definition maxsize :: nat where
  "maxsize = 10000"

definition empty_cache :: cache where
  "empty_cache = \<lparr>entries = [], hits = 0, misses = 0\<rparr>"

definition lru_cache_call ::
  "(key \<Rightarrow> error + string) \<Rightarrow> cache \<Rightarrow> key \<Rightarrow> (error + string) \<times> cache" where
  "lru_cache_call f c k =
     (case map_of (entries c) k of
        Some v \<Rightarrow>
          (Inr v, c\<lparr>entries := (k, v) # filter (\<lambda>e. fst e \<noteq> k) (entries c),
                     hits := Suc (hits c)\<rparr>)
      | None \<Rightarrow>
          (case f k of
             Inl e \<Rightarrow> (Inl e, c\<lparr>misses := Suc (misses c)\<rparr>)
           | Inr v \<Rightarrow>
               (Inr v, c\<lparr>entries := take maxsize ((k, v) # entries c),
                          misses := Suc (misses c)\<rparr>)))"

text \<open>The decorated \<^verbatim>\<open>_calculate_single_geohash\<close>, as callers see it.\<close>

definition calculate_single_geohash ::
  "(pyfloat \<Rightarrow> pyfloat \<Rightarrow> int \<Rightarrow> string) \<Rightarrow> (pyfloat \<Rightarrow> string) \<Rightarrow>
   cache \<Rightarrow> pyfloat \<Rightarrow> pyfloat \<Rightarrow> int \<Rightarrow> (error + string) \<times> cache" where
  "calculate_single_geohash enc sf c lat lon precision =
     lru_cache_call (\<lambda>(a, b, p). calculate_single_geohash_body enc sf a b p) c
       (lat, lon, precision)"

section \<open>The batch function\<close>

text \<open>
  The list comprehension of \<^verbatim>\<open>calculate_geohashes\<close>: one call per pair, in order;
  the first exception ends it and no list is built.
\<close>

fun geohash_comprehension ::
  "(pyfloat \<Rightarrow> pyfloat \<Rightarrow> int \<Rightarrow> string) \<Rightarrow> (pyfloat \<Rightarrow> string) \<Rightarrow>
   cache \<Rightarrow> (pyfloat \<times> pyfloat) list \<Rightarrow> int \<Rightarrow> (error + string list) \<times> cache" where
  "geohash_comprehension enc sf c [] precision = (Inr [], c)"
| "geohash_comprehension enc sf c ((lat, lon) # rest) precision =
     (case calculate_single_geohash enc sf c lat lon precision of
        (Inl e, c') \<Rightarrow> (Inl e, c')
      | (Inr h, c') \<Rightarrow>
          (case geohash_comprehension enc sf c' rest precision of
             (Inl e, c'') \<Rightarrow> (Inl e, c'')
           | (Inr hs, c'') \<Rightarrow> (Inr (h # hs), c'')))"

definition calculate_geohashes ::
  "(pyfloat \<Rightarrow> pyfloat \<Rightarrow> int \<Rightarrow> string) \<Rightarrow> (pyfloat \<Rightarrow> string) \<Rightarrow>
   cache \<Rightarrow> pyfloat list \<Rightarrow> pyfloat list \<Rightarrow> int \<Rightarrow> (error + string list) \<times> cache" where
  "calculate_geohashes enc sf c lats lons precision =
     (if length lats \<noteq> length lons then
        (Inl (ValueError (''Latitude and longitude lists must have same length, got ''
                @ str_nat (length lats) @ '' and '' @ str_nat (length lons))), c)
      else if lats = [] then (Inr [], c)
      else geohash_comprehension enc sf c (zip lats lons) precision)"

text \<open>
  The cache of a process after any sequence of earlier calls of the decorated
  function, starting from the empty cache of a fresh import.
\<close>

fun cache_after ::
  "(pyfloat \<Rightarrow> pyfloat \<Rightarrow> int \<Rightarrow> string) \<Rightarrow> (pyfloat \<Rightarrow> string) \<Rightarrow> cache \<Rightarrow> key list \<Rightarrow> cache" where
  "cache_after enc sf c [] = c"
| "cache_after enc sf c ((lat, lon, p) # calls) =
     cache_after enc sf (snd (calculate_single_geohash enc sf c lat lon p)) calls"

section \<open>The batch function without the cache\<close>

text \<open>
  The same batch function over the undecorated body (what
  \<^verbatim>\<open>_calculate_single_geohash.__wrapped__\<close> runs): the reference that the
  memoised path is compared with.
\<close>

fun body_comprehension ::
  "(pyfloat \<Rightarrow> pyfloat \<Rightarrow> int \<Rightarrow> string) \<Rightarrow> (pyfloat \<Rightarrow> string) \<Rightarrow>
   (pyfloat \<times> pyfloat) list \<Rightarrow> int \<Rightarrow> error + string list" where
  "body_comprehension enc sf [] precision = Inr []"
| "body_comprehension enc sf ((lat, lon) # rest) precision =
     (case calculate_single_geohash_body enc sf lat lon precision of
        Inl e \<Rightarrow> Inl e
      | Inr h \<Rightarrow>
          (case body_comprehension enc sf rest precision of
             Inl e \<Rightarrow> Inl e
           | Inr hs \<Rightarrow> Inr (h # hs)))"

definition uncached_geohashes ::
  "(pyfloat \<Rightarrow> pyfloat \<Rightarrow> int \<Rightarrow> string) \<Rightarrow> (pyfloat \<Rightarrow> string) \<Rightarrow>
   pyfloat list \<Rightarrow> pyfloat list \<Rightarrow> int \<Rightarrow> error + string list" where
  "uncached_geohashes enc sf lats lons precision =
     (if length lats \<noteq> length lons then
        Inl (ValueError (''Latitude and longitude lists must have same length, got ''
                @ str_nat (length lats) @ '' and '' @ str_nat (length lons)))
      else if lats = [] then Inr []
      else body_comprehension enc sf (zip lats lons) precision)"

section \<open>The external encoder\<close>

text \<open>
  Modelled from the spec: \<^verbatim>\<open>pygeodesy.geohash.encode\<close> is a third-party routine and
  not among the sources. The specification gives its contract: the ranges of
  longitude \<open>[-180, 180]\<close> and latitude \<open>[-90, 90]\<close> are bisected in turn, starting
  with longitude; each step yields one bit, set when the value lies in the upper
  half (the midpoint included, as in the standard algorithm); every five bits, most significant first, select one character of the
  alphabet \<^verbatim>\<open>0123456789bcdefghjkmnpqrstuvwxyz\<close>.
\<close>

definition base32 :: string where
  "base32 = ''0123456789bcdefghjkmnpqrstuvwxyz''"

text \<open>
  Modelled from the spec: the bits of the bisection. \<open>is_lon\<close> tells whose turn it is;
  \<open>w\<close>, \<open>e\<close> bound the longitude and \<open>s\<close>, \<open>n\<close> the latitude still in play.
\<close>

fun bisect_bits ::
  "nat \<Rightarrow> bool \<Rightarrow> rat \<Rightarrow> rat \<Rightarrow> rat \<Rightarrow> rat \<Rightarrow> pyfloat \<Rightarrow> pyfloat \<Rightarrow> bool list" where
  "bisect_bits 0 is_lon w e s n lat lon = []"
| "bisect_bits (Suc k) is_lon w e s n lat lon =
     (if is_lon then
        (if float_lt lon (Finite ((w + e) / 2))
         then False # bisect_bits k False w ((w + e) / 2) s n lat lon
         else True # bisect_bits k False ((w + e) / 2) e s n lat lon)
      else
        (if float_lt lat (Finite ((s + n) / 2))
         then False # bisect_bits k True w e s ((s + n) / 2) lat lon
         else True # bisect_bits k True w e ((s + n) / 2) n lat lon))"

text \<open>Modelled from the spec: a bit as a number.\<close>

definition bit_value :: "bool \<Rightarrow> nat" where
  "bit_value b = (if b then 1 else 0)"

text \<open>Modelled from the spec: five bits, most significant first, give one character.\<close>

fun base32_chars :: "bool list \<Rightarrow> string" where
  "base32_chars (b4 # b3 # b2 # b1 # b0 # rest) =
     base32 ! (16 * bit_value b4 + 8 * bit_value b3 + 4 * bit_value b2
               + 2 * bit_value b1 + bit_value b0)
     # base32_chars rest"
| "base32_chars _ = []"

text \<open>
  Modelled from the spec: the encoder itself, for a requested number of characters.
\<close>

definition geohash_encode :: "pyfloat \<Rightarrow> pyfloat \<Rightarrow> int \<Rightarrow> string" where
  "geohash_encode lat lon precision =
     base32_chars (bisect_bits (5 * nat precision) True (- 180) 180 (- 90) 90 lat lon)"

section \<open>Range predicates of the specification\<close>

definition lat_in_range :: "pyfloat \<Rightarrow> bool" where
  "lat_in_range x = (case x of Finite r \<Rightarrow> - 90 \<le> r \<and> r \<le> 90 | _ \<Rightarrow> False)"

definition lon_in_range :: "pyfloat \<Rightarrow> bool" where
  "lon_in_range x = (case x of Finite r \<Rightarrow> - 180 \<le> r \<and> r \<le> 180 | _ \<Rightarrow> False)"

definition precision_in_range :: "int \<Rightarrow> bool" where
  "precision_in_range p = (1 \<le> p \<and> p \<le> 12)"

definition valid_triple :: "pyfloat \<Rightarrow> pyfloat \<Rightarrow> int \<Rightarrow> bool" where
  "valid_triple lat lon p = (lat_in_range lat \<and> lon_in_range lon \<and> precision_in_range p)"

section \<open>A float formatter for the examples\<close>

text \<open>
  The examples need one concrete formatter. This one prints the floats they
  use as Python does: an integral float with one decimal (\<^verbatim>\<open>91.0\<close>) and the special
  values by name. Python's shortest round-trip printing of the other floats is not
  modelled, and no theorem about arbitrary formatters depends on this one.
\<close>

definition str_float_example :: "pyfloat \<Rightarrow> string" where
  "str_float_example x =
     (case x of
        Finite r \<Rightarrow> (if r = of_int \<lfloor>r\<rfloor> then str_int \<lfloor>r\<rfloor> @ ''.0'' else ''?'')
      | PosInf \<Rightarrow> ''inf''
      | NegInf \<Rightarrow> ''-inf''
      | NaN \<Rightarrow> ''nan'')"

text \<open>
  An encoder that returns no character at all. An example that runs the decorated
  function over it shows whether a result came out of the cache or out of the body.
\<close>

definition blank_encoder :: "pyfloat \<Rightarrow> pyfloat \<Rightarrow> int \<Rightarrow> string" where
  "blank_encoder lat lon precision = []"

section \<open>The invariant of the cache\<close>

text \<open>Every stored result is what the wrapped function returns for its key.\<close>

definition cache_consistent :: "(key \<Rightarrow> error + string) \<Rightarrow> cache \<Rightarrow> bool" where
  "cache_consistent f c = (\<forall>(k, v) \<in> set (entries c). f k = Inr v)"

section \<open>Facts about the comparisons and the body\<close>

lemma float_le_lat: "(float_le (Finite (- 90)) x \<and> float_le x (Finite 90)) = lat_in_range x"
  by (cases x) (simp_all add: lat_in_range_def)

lemma float_le_lon: "(float_le (Finite (- 180)) x \<and> float_le x (Finite 180)) = lon_in_range x"
  by (cases x) (simp_all add: lon_in_range_def)

lemma body_unfold:
  "calculate_single_geohash_body enc sf lat lon p =
     (if \<not> lat_in_range lat then
        Inl (ValueError (''Latitude must be between -90 and 90, got '' @ sf lat))
      else if \<not> lon_in_range lon then
        Inl (ValueError (''Longitude must be between -180 and 180, got '' @ sf lon))
      else if \<not> precision_in_range p then
        Inl (ValueError (''Precision must be between 1 and 12, got '' @ str_int p))
      else Inr (enc lat lon p))"
  unfolding calculate_single_geohash_body_def float_le_lat float_le_lon precision_in_range_def
  by (rule refl)

lemma body_valid: "valid_triple lat lon p \<Longrightarrow> calculate_single_geohash_body enc sf lat lon p = Inr (enc lat lon p)"
  by (simp add: body_unfold valid_triple_def)

lemma body_invalid: "\<not> valid_triple lat lon p \<Longrightarrow> \<exists>e. calculate_single_geohash_body enc sf lat lon p = Inl e"
  by (auto simp add: body_unfold valid_triple_def)

lemma body_Inr_iff: "(\<exists>h. calculate_single_geohash_body enc sf lat lon p = Inr h) = valid_triple lat lon p"
  by (auto simp add: body_unfold valid_triple_def)

section \<open>Facts about the cache\<close>

lemma consistent_empty: "cache_consistent f empty_cache"
  by (simp add: cache_consistent_def empty_cache_def)

lemma lru_hit_value: "cache_consistent f c \<Longrightarrow> map_of (entries c) k = Some v \<Longrightarrow> f k = Inr v"
  by (auto simp add: cache_consistent_def dest: map_of_SomeD)

lemma lru_cache_call_fst: "cache_consistent f c \<Longrightarrow> fst (lru_cache_call f c k) = f k"
  by (auto simp add: lru_cache_call_def lru_hit_value split: option.splits sum.splits)

lemma lru_cache_call_consistent:
  assumes "cache_consistent f c"
  shows "cache_consistent f (snd (lru_cache_call f c k))"
proof (cases "map_of (entries c) k")
  case None
  show ?thesis
  proof (cases "f k")
    case (Inl e)
    with None assms show ?thesis
      by (simp add: lru_cache_call_def cache_consistent_def)
  next
    case (Inr v)
    have "set (take maxsize ((k, v) # entries c)) \<subseteq> insert (k, v) (set (entries c))"
      using set_take_subset [of maxsize "(k, v) # entries c"] by simp
    with None Inr assms show ?thesis
      by (auto simp add: lru_cache_call_def cache_consistent_def)
  qed
next
  case (Some v)
  with assms have "f k = Inr v" by (simp add: lru_hit_value)
  with Some assms show ?thesis
    by (auto simp add: lru_cache_call_def cache_consistent_def)
qed

lemma lru_cache_call_error:
  assumes "cache_consistent f c" and "f k = Inl e"
  shows "lru_cache_call f c k = (Inl e, c\<lparr>misses := Suc (misses c)\<rparr>)"
proof (cases "map_of (entries c) k")
  case None
  with assms show ?thesis by (simp add: lru_cache_call_def)
next
  case (Some v)
  with assms have "f k = Inr v" by (simp add: lru_hit_value)
  with assms show ?thesis by simp
qed

lemma single_fst:
  "cache_consistent (\<lambda>(a, b, p). calculate_single_geohash_body enc sf a b p) c \<Longrightarrow>
   fst (calculate_single_geohash enc sf c lat lon p) = calculate_single_geohash_body enc sf lat lon p"
  by (simp add: calculate_single_geohash_def lru_cache_call_fst)

lemma single_consistent:
  "cache_consistent (\<lambda>(a, b, p). calculate_single_geohash_body enc sf a b p) c \<Longrightarrow>
   cache_consistent (\<lambda>(a, b, p). calculate_single_geohash_body enc sf a b p)
     (snd (calculate_single_geohash enc sf c lat lon p))"
  by (simp add: calculate_single_geohash_def lru_cache_call_consistent)

lemma single_error:
  "cache_consistent (\<lambda>(a, b, p). calculate_single_geohash_body enc sf a b p) c \<Longrightarrow>
   calculate_single_geohash_body enc sf lat lon p = Inl e \<Longrightarrow>
   calculate_single_geohash enc sf c lat lon p = (Inl e, c\<lparr>misses := Suc (misses c)\<rparr>)"
  by (simp add: calculate_single_geohash_def lru_cache_call_error)

lemma cache_after_consistent:
  "cache_consistent (\<lambda>(a, b, p). calculate_single_geohash_body enc sf a b p) c \<Longrightarrow>
   cache_consistent (\<lambda>(a, b, p). calculate_single_geohash_body enc sf a b p)
     (cache_after enc sf c calls)"
proof (induction calls arbitrary: c)
  case Nil
  then show ?case by simp
next
  case (Cons k calls)
  obtain lat lon p where k: "k = (lat, lon, p)" by (cases k)
  from Cons.prems have "cache_consistent (\<lambda>(a, b, p). calculate_single_geohash_body enc sf a b p)
      (snd (calculate_single_geohash enc sf c lat lon p))"
    by (rule single_consistent)
  then show ?case unfolding k by (simp add: Cons.IH)
qed

lemma reachable_consistent:
  "cache_consistent (\<lambda>(a, b, p). calculate_single_geohash_body enc sf a b p)
     (cache_after enc sf empty_cache calls)"
  by (rule cache_after_consistent) (rule consistent_empty)

lemma comprehension_fst:
  "cache_consistent (\<lambda>(a, b, p). calculate_single_geohash_body enc sf a b p) c \<Longrightarrow>
   fst (geohash_comprehension enc sf c ps p) = body_comprehension enc sf ps p"
proof (induction ps arbitrary: c)
  case Nil
  show ?case by simp
next
  case (Cons x ps)
  obtain lat lon where x: "x = (lat, lon)" by (cases x)
  obtain r c' where call: "calculate_single_geohash enc sf c lat lon p = (r, c')"
    by (cases "calculate_single_geohash enc sf c lat lon p")
  have r: "r = calculate_single_geohash_body enc sf lat lon p"
    using single_fst [OF Cons.prems, of lat lon p] call by simp
  have "cache_consistent (\<lambda>(a, b, p). calculate_single_geohash_body enc sf a b p) c'"
    using single_consistent [OF Cons.prems, of lat lon p] call by simp
  then have IH: "fst (geohash_comprehension enc sf c' ps p) = body_comprehension enc sf ps p"
    by (rule Cons.IH)
  show ?case
    unfolding x using call r IH
    by (cases "geohash_comprehension enc sf c' ps p")
       (auto split: sum.splits)
qed

lemma comprehension_consistent:
  "cache_consistent (\<lambda>(a, b, p). calculate_single_geohash_body enc sf a b p) c \<Longrightarrow>
   cache_consistent (\<lambda>(a, b, p). calculate_single_geohash_body enc sf a b p)
     (snd (geohash_comprehension enc sf c ps p))"
proof (induction ps arbitrary: c)
  case Nil
  then show ?case by simp
next
  case (Cons x ps)
  obtain lat lon where x: "x = (lat, lon)" by (cases x)
  obtain r c' where call: "calculate_single_geohash enc sf c lat lon p = (r, c')"
    by (cases "calculate_single_geohash enc sf c lat lon p")
  have c': "cache_consistent (\<lambda>(a, b, p). calculate_single_geohash_body enc sf a b p) c'"
    using single_consistent [OF Cons.prems, of lat lon p] call by simp
  then have IH: "cache_consistent (\<lambda>(a, b, p). calculate_single_geohash_body enc sf a b p)
      (snd (geohash_comprehension enc sf c' ps p))"
    by (rule Cons.IH)
  show ?case
    unfolding x using call c' IH
    by (cases "geohash_comprehension enc sf c' ps p")
       (auto split: sum.splits)
qed

lemma batch_fst:
  "cache_consistent (\<lambda>(a, b, p). calculate_single_geohash_body enc sf a b p) c \<Longrightarrow>
   fst (calculate_geohashes enc sf c lats lons p) = uncached_geohashes enc sf lats lons p"
  by (simp add: calculate_geohashes_def uncached_geohashes_def comprehension_fst)

lemma batch_consistent:
  "cache_consistent (\<lambda>(a, b, p). calculate_single_geohash_body enc sf a b p) c \<Longrightarrow>
   cache_consistent (\<lambda>(a, b, p). calculate_single_geohash_body enc sf a b p)
     (snd (calculate_geohashes enc sf c lats lons p))"
  by (simp add: calculate_geohashes_def comprehension_consistent)

lemma geohash_origin: "geohash_encode (Finite 0) (Finite 0) 5 = ''s0000''"
  by (simp add: geohash_encode_def base32_def bit_value_def eval_nat_numeral)

lemma comprehension_prefix_error:
  assumes "cache_consistent (\<lambda>(a, b, p). calculate_single_geohash_body enc sf a b p) c"
    and "\<forall>(a, b) \<in> set pre. valid_triple a b p"
    and "calculate_single_geohash_body enc sf lat lon p = Inl e"
  shows "fst (geohash_comprehension enc sf c pre p) = Inr (map (\<lambda>(a, b). enc a b p) pre)
    \<and> geohash_comprehension enc sf c (pre @ (lat, lon) # post) p =
       (Inl e, (snd (geohash_comprehension enc sf c pre p))
                 \<lparr>misses := Suc (misses (snd (geohash_comprehension enc sf c pre p)))\<rparr>)"
  using assms(1,2)
proof (induction pre arbitrary: c)
  case Nil
  then show ?case by (simp add: single_error [OF _ assms(3)])
next
  case (Cons x pre)
  obtain a b where x: "x = (a, b)" by (cases x)
  obtain r c' where call: "calculate_single_geohash enc sf c a b p = (r, c')"
    by (cases "calculate_single_geohash enc sf c a b p")
  have "valid_triple a b p" using Cons.prems(2) x by simp
  then have r: "r = Inr (enc a b p)"
    using single_fst [OF Cons.prems(1), of a b p] call by (simp add: body_valid)
  have c': "cache_consistent (\<lambda>(a, b, p). calculate_single_geohash_body enc sf a b p) c'"
    using single_consistent [OF Cons.prems(1), of a b p] call by simp
  have "\<forall>(a, b) \<in> set pre. valid_triple a b p" using Cons.prems(2) by simp
  with c' have IH: "fst (geohash_comprehension enc sf c' pre p) = Inr (map (\<lambda>(a, b). enc a b p) pre)
    \<and> geohash_comprehension enc sf c' (pre @ (lat, lon) # post) p =
       (Inl e, (snd (geohash_comprehension enc sf c' pre p))
                 \<lparr>misses := Suc (misses (snd (geohash_comprehension enc sf c' pre p)))\<rparr>)"
    by (rule Cons.IH)
  show ?case
    unfolding x using call r IH
    by (cases "geohash_comprehension enc sf c' pre p") (auto split: sum.splits)
qed

lemma zip_split_at:
  assumes "length xs = length ys" and "i < length xs"
  shows "zip xs ys = zip (take i xs) (take i ys) @ (xs ! i, ys ! i) # zip (drop (Suc i) xs) (drop (Suc i) ys)"
proof -
  have "zip xs ys = zip (take i xs @ xs ! i # drop (Suc i) xs) (take i ys @ ys ! i # drop (Suc i) ys)"
    using assms by (simp add: id_take_nth_drop [symmetric])
  also have "\<dots> = zip (take i xs) (take i ys) @ zip (xs ! i # drop (Suc i) xs) (ys ! i # drop (Suc i) ys)"
    using assms by (intro zip_append) simp
  finally show ?thesis by simp
qed

lemma take_filter_mem: "x \<in> set (take m xs) \<Longrightarrow> P x \<Longrightarrow> x \<in> set (take m (filter P xs))"
proof (induction xs arbitrary: m)
  case Nil
  then show ?case by simp
next
  case (Cons y ys)
  show ?case
  proof (cases m)
    case 0
    with Cons.prems show ?thesis by simp
  next
    case (Suc m')
    show ?thesis
    proof (cases "P y")
      case True
      with Cons Suc show ?thesis by auto
    next
      case False
      with Cons.prems Suc have "x \<in> set (take m' ys)" by auto
      then have "x \<in> set (take (Suc m') ys)"
        using set_take_subset_set_take [of m' "Suc m'" ys] by auto
      with Cons.IH Cons.prems(2) False Suc show ?thesis by simp
    qed
  qed
qed

lemma lru_hit_served:
  "map_of (entries c) k = Some v \<Longrightarrow>
   lru_cache_call f c k =
     (Inr v, c\<lparr>entries := (k, v) # filter (\<lambda>e. fst e \<noteq> k) (entries c), hits := Suc (hits c)\<rparr>)"
  by (simp add: lru_cache_call_def)

lemma lru_stores_front:
  assumes "f k = Inr v"
  shows "k \<in> fst ` set (take 1 (entries (snd (lru_cache_call f c k))))"
proof (cases "map_of (entries c) k")
  case None
  with assms show ?thesis by (simp add: lru_cache_call_def maxsize_def)
next
  case (Some w)
  then show ?thesis by (simp add: lru_cache_call_def)
qed

lemma lru_keeps_recent:
  assumes "k \<in> fst ` set (take m (entries c))" and "m < maxsize"
  shows "k \<in> fst ` set (take (Suc m) (entries (snd (lru_cache_call f c k'))))"
proof (cases "map_of (entries c) k'")
  case None
  show ?thesis
  proof (cases "f k'")
    case (Inl e)
    have "set (take m (entries c)) \<subseteq> set (take (Suc m) (entries c))"
      by (rule set_take_subset_set_take) simp
    with assms(1) None Inl show ?thesis by (auto simp add: lru_cache_call_def)
  next
    case (Inr v)
    have "take (Suc m) (take maxsize ((k', v) # entries c)) = (k', v) # take m (entries c)"
      using assms(2) by (simp add: min_def)
    with assms(1) None Inr show ?thesis by (simp add: lru_cache_call_def)
  qed
next
  case (Some w)
  show ?thesis
  proof (cases "k = k'")
    case True
    with Some show ?thesis by (simp add: lru_cache_call_def)
  next
    case False
    from assms(1) obtain x where x: "x \<in> set (take m (entries c))" "fst x = k" by auto
    with False have "x \<in> set (take m (filter (\<lambda>e. fst e \<noteq> k') (entries c)))"
      by (intro take_filter_mem) simp_all
    with x(2) Some show ?thesis by (auto simp add: lru_cache_call_def)
  qed
qed

lemma comprehension_snd_Cons:
  "calculate_single_geohash enc sf c lat lon p = (Inr h, c') \<Longrightarrow>
   snd (geohash_comprehension enc sf c ((lat, lon) # ps) p)
     = snd (geohash_comprehension enc sf c' ps p)"
  by (cases "geohash_comprehension enc sf c' ps p") (auto split: sum.splits)

lemma comprehension_keeps_recent:
  "k \<in> fst ` set (take m (entries c)) \<Longrightarrow> m + length ps \<le> maxsize \<Longrightarrow>
   k \<in> fst ` set (take (m + length ps) (entries (snd (geohash_comprehension enc sf c ps p))))"
proof (induction ps arbitrary: c m)
  case Nil
  then show ?case by simp
next
  case (Cons x ps)
  obtain lat lon where x: "x = (lat, lon)" by (cases x)
  obtain r c' where call: "calculate_single_geohash enc sf c lat lon p = (r, c')"
    by (cases "calculate_single_geohash enc sf c lat lon p")
  from Cons.prems(2) have m: "m < maxsize" by simp
  have step: "k \<in> fst ` set (take (Suc m) (entries c'))"
    using lru_keeps_recent [OF Cons.prems(1) m,
        of "\<lambda>(a, b, p). calculate_single_geohash_body enc sf a b p" "(lat, lon, p)"] call
    by (simp add: calculate_single_geohash_def)
  show ?case
  proof (cases r)
    case (Inl e)
    have "set (take (Suc m) (entries c')) \<subseteq> set (take (m + length (x # ps)) (entries c'))"
      by (rule set_take_subset_set_take) simp
    with step call Inl show ?thesis unfolding x by auto
  next
    case (Inr h)
    from Cons.prems(2) have "Suc m + length ps \<le> maxsize" by simp
    with step have "k \<in> fst ` set (take (Suc m + length ps)
        (entries (snd (geohash_comprehension enc sf c' ps p))))"
      by (rule Cons.IH)
    moreover from call Inr have "calculate_single_geohash enc sf c lat lon p = (Inr h, c')"
      by simp
    then have "snd (geohash_comprehension enc sf c ((lat, lon) # ps) p)
        = snd (geohash_comprehension enc sf c' ps p)"
      by (rule comprehension_snd_Cons)
    ultimately show ?thesis unfolding x by (simp del: geohash_comprehension.simps)
  qed
qed

lemma comprehension_prefix_keys:
  assumes "cache_consistent (\<lambda>(a, b, p). calculate_single_geohash_body enc sf a b p) c"
    and "\<forall>(a, b) \<in> set ps. valid_triple a b p"
    and "j < length ps" and "length ps \<le> j + maxsize"
  shows "(fst (ps ! j), snd (ps ! j), p)
    \<in> fst ` set (take (length ps - j) (entries (snd (geohash_comprehension enc sf c ps p))))"
  using assms
proof (induction ps arbitrary: c j)
  case Nil
  then show ?case by simp
next
  case (Cons x ps)
  obtain a b where x: "x = (a, b)" by (cases x)
  obtain r c' where call: "calculate_single_geohash enc sf c a b p = (r, c')"
    by (cases "calculate_single_geohash enc sf c a b p")
  have "valid_triple a b p" using Cons.prems(2) x by simp
  then have body: "calculate_single_geohash_body enc sf a b p = Inr (enc a b p)"
    by (rule body_valid)
  then have r: "r = Inr (enc a b p)"
    using single_fst [OF Cons.prems(1), of a b p] call by simp
  have c': "cache_consistent (\<lambda>(a, b, p). calculate_single_geohash_body enc sf a b p) c'"
    using single_consistent [OF Cons.prems(1), of a b p] call by simp
  from call r have "calculate_single_geohash enc sf c a b p = (Inr (enc a b p), c')"
    by simp
  then have snd_eq: "snd (geohash_comprehension enc sf c (x # ps) p)
      = snd (geohash_comprehension enc sf c' ps p)"
    unfolding x by (rule comprehension_snd_Cons)
  show ?case
  proof (cases j)
    case 0
    have "(a, b, p) \<in> fst ` set (take 1 (entries c'))"
      using lru_stores_front [of "\<lambda>(a, b, p). calculate_single_geohash_body enc sf a b p"
          "(a, b, p)" "enc a b p" c] body call
      by (simp add: calculate_single_geohash_def)
    moreover have "1 + length ps \<le> maxsize" using Cons.prems(4) 0 by simp
    ultimately have "(a, b, p) \<in> fst ` set (take (1 + length ps)
        (entries (snd (geohash_comprehension enc sf c' ps p))))"
      by (rule comprehension_keeps_recent)
    with 0 x snd_eq show ?thesis by (simp del: geohash_comprehension.simps)
  next
    case (Suc j')
    have "\<forall>(a, b) \<in> set ps. valid_triple a b p" using Cons.prems(2) by simp
    moreover have "j' < length ps" using Cons.prems(3) Suc by simp
    moreover have "length ps \<le> j' + maxsize" using Cons.prems(4) Suc by simp
    ultimately have "(fst (ps ! j'), snd (ps ! j'), p)
        \<in> fst ` set (take (length ps - j') (entries (snd (geohash_comprehension enc sf c' ps p))))"
      using c' by (intro Cons.IH)
    with Suc snd_eq show ?thesis by (simp del: geohash_comprehension.simps)
  qed
qed

section \<open>Range checks\<close>

text \<open>
  Claim C3. The range checks of the single-coordinate function raise exactly when a
  value is out of range, the bounds included in the range: the call fails if and
  only if the latitude is outside \<open>[-90, 90]\<close>, the longitude outside \<open>[-180, 180]\<close>
  or the precision outside \<open>[1, 12]\<close>. A latitude out of range gives the message
  "Latitude must be between -90 and 90, got" and the value; a longitude out of range
  (the latitude passing) gives "Longitude must be between -180 and 180, got" and
  the value; a precision out of range (both coordinates passing) gives "Precision
  must be between 1 and 12, got" and the value. The boundary values -90, 90, -180,
  180, 1 and 12 pass.
\<close>

theorem validation_inclusive_bounds:
  "((\<exists>e. calculate_single_geohash_body enc sf lat lon p = Inl e)
      \<longleftrightarrow> \<not> (lat_in_range lat \<and> lon_in_range lon \<and> precision_in_range p))
   \<and> (\<not> lat_in_range lat \<longrightarrow>
        calculate_single_geohash_body enc sf lat lon p =
          Inl (ValueError (''Latitude must be between -90 and 90, got '' @ sf lat)))
   \<and> (lat_in_range lat \<and> \<not> lon_in_range lon \<longrightarrow>
        calculate_single_geohash_body enc sf lat lon p =
          Inl (ValueError (''Longitude must be between -180 and 180, got '' @ sf lon)))
   \<and> (lat_in_range lat \<and> lon_in_range lon \<and> \<not> precision_in_range p \<longrightarrow>
        calculate_single_geohash_body enc sf lat lon p =
          Inl (ValueError (''Precision must be between 1 and 12, got '' @ str_int p)))
   \<and> calculate_single_geohash_body enc sf (Finite (- 90)) (Finite (- 180)) 1
        = Inr (enc (Finite (- 90)) (Finite (- 180)) 1)
   \<and> calculate_single_geohash_body enc sf (Finite 90) (Finite 180) 12
        = Inr (enc (Finite 90) (Finite 180) 12)"
  by (auto simp add: body_unfold lat_in_range_def lon_in_range_def precision_in_range_def)

theorem validation_inclusive_bounds_witness:
  "\<not> lat_in_range (Finite 91)
   \<and> calculate_single_geohash_body geohash_encode str_float_example (Finite 91) (Finite 0) 5
       = Inl (ValueError ''Latitude must be between -90 and 90, got 91.0'')
   \<and> lat_in_range (Finite 0) \<and> \<not> lon_in_range (Finite (- 181))
   \<and> calculate_single_geohash_body geohash_encode str_float_example (Finite 0) (Finite (- 181)) 5
       = Inl (ValueError ''Longitude must be between -180 and 180, got -181.0'')
   \<and> lon_in_range (Finite 0) \<and> \<not> precision_in_range 13
   \<and> calculate_single_geohash_body geohash_encode str_float_example (Finite 0) (Finite 0) 13
       = Inl (ValueError ''Precision must be between 1 and 12, got 13'')
   \<and> \<not> lat_in_range NaN
   \<and> calculate_single_geohash_body geohash_encode str_float_example NaN (Finite 0) 5
       = Inl (ValueError ''Latitude must be between -90 and 90, got nan'')"
  using validation_inclusive_bounds [of geohash_encode str_float_example "Finite 91" "Finite 0" 5]
    validation_inclusive_bounds [of geohash_encode str_float_example "Finite 0" "Finite (- 181)" 5]
    validation_inclusive_bounds [of geohash_encode str_float_example "Finite 0" "Finite 0" 13]
    validation_inclusive_bounds [of geohash_encode str_float_example NaN "Finite 0" 5]
  by (simp add: lat_in_range_def lon_in_range_def precision_in_range_def
      str_float_example_def str_int_def str_nat.simps digit_char_def)

text \<open>
  Claim C10. Within one triple the checks run in the order latitude, longitude,
  precision. Whatever the cache holds after earlier calls, a latitude out of range
  gives the latitude message, also when the longitude or the precision is out of
  range too; a longitude out of range with the latitude in range gives the longitude
  message, also when the precision is out of range too.
\<close>

theorem check_order:
  "(\<not> lat_in_range lat \<longrightarrow>
      fst (calculate_single_geohash enc sf (cache_after enc sf empty_cache calls) lat lon p)
        = Inl (ValueError (''Latitude must be between -90 and 90, got '' @ sf lat)))
   \<and> (lat_in_range lat \<and> \<not> lon_in_range lon \<longrightarrow>
      fst (calculate_single_geohash enc sf (cache_after enc sf empty_cache calls) lat lon p)
        = Inl (ValueError (''Longitude must be between -180 and 180, got '' @ sf lon)))"
  by (simp add: single_fst [OF reachable_consistent] body_unfold)

theorem check_order_witness:
  "\<not> lat_in_range (Finite 91) \<and> \<not> lon_in_range (Finite 181) \<and> \<not> precision_in_range 13
   \<and> fst (calculate_single_geohash geohash_encode str_float_example
            (cache_after geohash_encode str_float_example empty_cache [(Finite 0, Finite 0, 5)])
            (Finite 91) (Finite 181) 13)
       = Inl (ValueError ''Latitude must be between -90 and 90, got 91.0'')
   \<and> lat_in_range (Finite 0)
   \<and> fst (calculate_single_geohash geohash_encode str_float_example
            (cache_after geohash_encode str_float_example empty_cache [(Finite 0, Finite 0, 5)])
            (Finite 0) (Finite 181) 13)
       = Inl (ValueError ''Longitude must be between -180 and 180, got 181.0'')"
  using check_order [of "Finite 91" geohash_encode str_float_example "[(Finite 0, Finite 0, 5)]" "Finite 181" 13]
    check_order [of "Finite 0" geohash_encode str_float_example "[(Finite 0, Finite 0, 5)]" "Finite 181" 13]
  by (simp add: lat_in_range_def lon_in_range_def precision_in_range_def
      str_float_example_def str_int_def str_nat.simps digit_char_def)

section \<open>Shape of the batch\<close>

text \<open>
  Claim C4. When the two lists differ in length, the batch function raises
  "Latitude and longitude lists must have same length, got" with the two lengths,
  returns no list, and hands the cache back exactly as it received it: no
  single-coordinate call is made.
\<close>

theorem length_mismatch:
  "length lats \<noteq> length lons \<Longrightarrow>
   calculate_geohashes enc sf c lats lons p =
     (Inl (ValueError (''Latitude and longitude lists must have same length, got ''
             @ str_nat (length lats) @ '' and '' @ str_nat (length lons))), c)"
  by (simp add: calculate_geohashes_def)

theorem length_mismatch_witness:
  "length [Finite 0, Finite 1] \<noteq> length [Finite 0]
   \<and> calculate_geohashes geohash_encode str_float_example empty_cache
        [Finite 0, Finite 1] [Finite 0] 5 =
       (Inl (ValueError ''Latitude and longitude lists must have same length, got 2 and 1''),
        empty_cache)"
  using length_mismatch [of "[Finite 0, Finite 1]" "[Finite 0]" geohash_encode str_float_example empty_cache 5]
  by (simp add: str_nat.simps digit_char_def)

text \<open>
  Claim C7. With two empty lists the batch function returns the empty list for
  every integer precision, in range or not, and hands the cache back exactly as it
  received it: the precision is not checked and no single-coordinate call is made.
\<close>

theorem empty_batch:
  "calculate_geohashes enc sf c [] [] p = (Inr [], c)"
  by (simp add: calculate_geohashes_def)

section \<open>The cache and the results\<close>

text \<open>
  Claim C6. The result of the batch function depends on its three arguments only.
  Whatever sequence of earlier calls filled the cache, the result is the one the
  function computes without the decorator; so two calls with the same arguments
  return the same result whatever the cache holds at each of them, also when the
  second call runs on the cache the first one left.
\<close>

theorem memoisation_transparent:
  "fst (calculate_geohashes enc sf (cache_after enc sf empty_cache calls) lats lons p)
     = uncached_geohashes enc sf lats lons p
   \<and> fst (calculate_geohashes enc sf (cache_after enc sf empty_cache calls') lats lons p)
     = fst (calculate_geohashes enc sf (cache_after enc sf empty_cache calls) lats lons p)
   \<and> fst (calculate_geohashes enc sf
            (snd (calculate_geohashes enc sf (cache_after enc sf empty_cache calls) lats lons p))
            lats lons p)
     = fst (calculate_geohashes enc sf (cache_after enc sf empty_cache calls) lats lons p)"
  by (simp add: batch_fst [OF reachable_consistent]
      batch_fst [OF batch_consistent [OF reachable_consistent]])

text \<open>
  Claim C8, as amended. The decorator wraps the range checks, so a call of the
  single-coordinate function looks its triple up in the cache before the body, and
  with it the checks, can run. For a triple that fails validation the lookup is
  always a miss, since an exception is never stored: the error of the body reaches
  the caller unchanged, no entry is added, dropped or moved and the hit counter
  keeps its value, while the miss counter goes up by one.
\<close>

theorem invalid_call_cache_effect:
  "\<not> valid_triple lat lon p \<Longrightarrow>
   \<exists>e. calculate_single_geohash_body enc sf lat lon p = Inl e
     \<and> calculate_single_geohash enc sf (cache_after enc sf empty_cache calls) lat lon p =
         (Inl e, (cache_after enc sf empty_cache calls)
                   \<lparr>misses := Suc (misses (cache_after enc sf empty_cache calls))\<rparr>)"
proof -
  assume "\<not> valid_triple lat lon p"
  then obtain e where e: "calculate_single_geohash_body enc sf lat lon p = Inl e"
    using body_invalid by blast
  from single_error [OF reachable_consistent e] e show ?thesis by blast
qed

theorem invalid_call_cache_effect_witness:
  "\<not> valid_triple (Finite 91) (Finite 0) 5
   \<and> cache_after geohash_encode str_float_example empty_cache [(Finite 0, Finite 0, 5)]
       = \<lparr>entries = [((Finite 0, Finite 0, 5), ''s0000'')], hits = 0, misses = 1\<rparr>
   \<and> calculate_single_geohash geohash_encode str_float_example
        (cache_after geohash_encode str_float_example empty_cache [(Finite 0, Finite 0, 5)])
        (Finite 91) (Finite 0) 5
       = (Inl (ValueError ''Latitude must be between -90 and 90, got 91.0''),
          \<lparr>entries = [((Finite 0, Finite 0, 5), ''s0000'')], hits = 0, misses = 2\<rparr>)"
proof -
  have h: "\<not> valid_triple (Finite 91) (Finite 0) 5"
    by (simp add: valid_triple_def lat_in_range_def)
  have c: "cache_after geohash_encode str_float_example empty_cache [(Finite 0, Finite 0, 5)]
       = \<lparr>entries = [((Finite 0, Finite 0, 5), ''s0000'')], hits = 0, misses = 1\<rparr>"
    by (simp add: calculate_single_geohash_def lru_cache_call_def empty_cache_def maxsize_def
        calculate_single_geohash_body_def geohash_origin)
  have b: "calculate_single_geohash_body geohash_encode str_float_example (Finite 91) (Finite 0) 5
       = Inl (ValueError ''Latitude must be between -90 and 90, got 91.0'')"
    by (simp add: calculate_single_geohash_body_def str_float_example_def str_int_def
        str_nat.simps digit_char_def)
  from invalid_call_cache_effect [OF h, of geohash_encode str_float_example "[(Finite 0, Finite 0, 5)]"]
  show ?thesis using h b c by simp
qed

text \<open>
  The claim as the specification words it fails: a call that fails validation on a
  fresh cache does not leave the cache as it was, because the lookup that precedes
  the checks is counted.
\<close>

theorem validation_before_cache_counterexample:
  "\<not> valid_triple (Finite 91) (Finite 0) 5
   \<and> snd (calculate_single_geohash geohash_encode str_float_example empty_cache
             (Finite 91) (Finite 0) 5)
       = \<lparr>entries = [], hits = 0, misses = 1\<rparr>
   \<and> snd (calculate_single_geohash geohash_encode str_float_example empty_cache
             (Finite 91) (Finite 0) 5)
       \<noteq> empty_cache"
  by (simp add: valid_triple_def lat_in_range_def calculate_single_geohash_def
      lru_cache_call_def empty_cache_def calculate_single_geohash_body_def)

text \<open>
  Claim C5, as amended. Take a batch of two lists of equal length in which the
  triple at index \<open>i\<close> is the first that fails validation. Whatever earlier calls
  filled the cache, the batch function raises the error of that triple and returns
  no list, and the batch of the first \<open>i\<close> pairs alone succeeds. The cache the
  failed call leaves is the cache that the batch of the first \<open>i\<close> pairs alone
  leaves, with the same entries in the same order of use and the same hit counter,
  except that its miss counter is one higher: the lookup of the failing triple is
  counted. Nothing the prefix stored is rolled back: a later call with a triple of
  the prefix that fewer than 10000 calls of the prefix followed is a hit. It
  returns the stored string whatever the body would compute, moves the entry to
  the front and counts one hit.
\<close>

theorem failed_batch_cache_effect:
  assumes "length lats = length lons" and "i < length lats"
    and "\<forall>j<i. valid_triple (lats ! j) (lons ! j) p"
    and "\<not> valid_triple (lats ! i) (lons ! i) p"
  shows "let c = cache_after enc sf empty_cache calls;
             failed = calculate_geohashes enc sf c lats lons p;
             prefix = calculate_geohashes enc sf c (take i lats) (take i lons) p
         in (\<exists>e. calculate_single_geohash_body enc sf (lats ! i) (lons ! i) p = Inl e
                \<and> fst failed = Inl e)
          \<and> fst prefix = Inr (map (\<lambda>(a, b). enc a b p) (zip (take i lats) (take i lons)))
          \<and> snd failed = (snd prefix)\<lparr>misses := Suc (misses (snd prefix))\<rparr>
          \<and> (\<forall>j<i. i \<le> j + 10000 \<longrightarrow>
                (\<forall>enc' sf'.
                   calculate_single_geohash enc' sf' (snd failed) (lats ! j) (lons ! j) p =
                     (Inr (enc (lats ! j) (lons ! j) p),
                      (snd failed)
                        \<lparr>entries := ((lats ! j, lons ! j, p), enc (lats ! j) (lons ! j) p)
                             # filter (\<lambda>e. fst e \<noteq> (lats ! j, lons ! j, p)) (entries (snd failed)),
                         hits := Suc (hits (snd failed))\<rparr>)))"
proof -
  let ?c = "cache_after enc sf empty_cache calls"
  let ?pre = "zip (take i lats) (take i lons)"
  let ?post = "zip (drop (Suc i) lats) (drop (Suc i) lons)"
  let ?G = "snd (geohash_comprehension enc sf ?c ?pre p)"
  let ?F = "?G\<lparr>misses := Suc (misses ?G)\<rparr>"
  let ?body = "\<lambda>(a, b, p). calculate_single_geohash_body enc sf a b p"
  obtain e where e: "calculate_single_geohash_body enc sf (lats ! i) (lons ! i) p = Inl e"
    using assms(4) body_invalid by blast
  have ok: "cache_consistent ?body ?c"
    by (rule reachable_consistent)
  have split: "zip lats lons = ?pre @ (lats ! i, lons ! i) # ?post"
    using assms(1,2) by (rule zip_split_at)
  have len: "length ?pre = i" using assms(1,2) by simp
  have nth: "?pre ! j = (lats ! j, lons ! j)" if "j < i" for j
    using that assms(1,2) by simp
  have valid: "\<forall>(a, b) \<in> set ?pre. valid_triple a b p"
  proof -
    have "valid_triple a b p" if "(a, b) \<in> set ?pre" for a b
    proof -
      from that obtain j where j: "j < length ?pre" "?pre ! j = (a, b)"
        by (auto simp add: in_set_conv_nth)
      then have "j < i" by simp
      moreover from j assms(1,2) have "a = lats ! j" "b = lons ! j" by simp_all
      ultimately show ?thesis using assms(3) by simp
    qed
    then show ?thesis by blast
  qed
  note pe = comprehension_prefix_error [OF ok valid e, of ?post]
  have nonempty: "lats \<noteq> []" using assms(2) by auto
  have full: "calculate_geohashes enc sf ?c lats lons p = (Inl e, ?F)"
    using pe assms(1) nonempty by (simp add: calculate_geohashes_def split)
  have prefix: "calculate_geohashes enc sf ?c (take i lats) (take i lons) p =
      geohash_comprehension enc sf ?c ?pre p"
    using assms(1) by (auto simp add: calculate_geohashes_def)
  have okG: "cache_consistent ?body ?G"
    using ok by (rule comprehension_consistent)
  have later: "calculate_single_geohash enc' sf' ?F (lats ! j) (lons ! j) p =
      (Inr (enc (lats ! j) (lons ! j) p),
       ?F\<lparr>entries := ((lats ! j, lons ! j, p), enc (lats ! j) (lons ! j) p)
              # filter (\<lambda>e. fst e \<noteq> (lats ! j, lons ! j, p)) (entries ?F),
           hits := Suc (hits ?F)\<rparr>)"
    if j: "j < i" and near: "i \<le> j + 10000" for j enc' sf'
  proof -
    let ?k = "(lats ! j, lons ! j, p)"
    have "(fst (?pre ! j), snd (?pre ! j), p) \<in> fst ` set (take (length ?pre - j) (entries ?G))"
      using ok valid j near len
      by (intro comprehension_prefix_keys) (simp_all add: maxsize_def)
    then have "?k \<in> fst ` set (take (i - j) (entries ?G))"
      using nth [OF j] len by simp
    then have "?k \<in> fst ` set (entries ?G)"
      using set_take_subset [of "i - j" "entries ?G"] by auto
    then obtain v where v: "map_of (entries ?G) ?k = Some v"
      by (cases "map_of (entries ?G) ?k") (auto simp add: map_of_eq_None_iff)
    with okG have "?body ?k = Inr v" by (rule lru_hit_value)
    moreover have "valid_triple (lats ! j) (lons ! j) p" using assms(3) j by simp
    ultimately have "v = enc (lats ! j) (lons ! j) p" by (simp add: body_valid)
    with v have "map_of (entries ?F) ?k = Some (enc (lats ! j) (lons ! j) p)" by simp
    then show ?thesis
      unfolding calculate_single_geohash_def by (rule lru_hit_served)
  qed
  have first: "\<exists>e. calculate_single_geohash_body enc sf (lats ! i) (lons ! i) p = Inl e
      \<and> fst (calculate_geohashes enc sf ?c lats lons p) = Inl e"
    using e full by simp
  have second: "fst (calculate_geohashes enc sf ?c (take i lats) (take i lons) p)
      = Inr (map (\<lambda>(a, b). enc a b p) ?pre)"
    using pe prefix by simp
  have third: "snd (calculate_geohashes enc sf ?c lats lons p)
      = (snd (calculate_geohashes enc sf ?c (take i lats) (take i lons) p))
          \<lparr>misses := Suc (misses (snd (calculate_geohashes enc sf ?c (take i lats) (take i lons) p)))\<rparr>"
    by (simp only: full prefix snd_conv)
  have fourth: "\<forall>j<i. i \<le> j + 10000 \<longrightarrow>
      (\<forall>enc' sf'.
         calculate_single_geohash enc' sf' (snd (calculate_geohashes enc sf ?c lats lons p))
             (lats ! j) (lons ! j) p =
           (Inr (enc (lats ! j) (lons ! j) p),
            (snd (calculate_geohashes enc sf ?c lats lons p))
              \<lparr>entries := ((lats ! j, lons ! j, p), enc (lats ! j) (lons ! j) p)
                   # filter (\<lambda>e. fst e \<noteq> (lats ! j, lons ! j, p))
                       (entries (snd (calculate_geohashes enc sf ?c lats lons p))),
               hits := Suc (hits (snd (calculate_geohashes enc sf ?c lats lons p)))\<rparr>))"
    using later by (simp only: full snd_conv) blast
  from first second third fourth show ?thesis
    unfolding Let_def by blast
qed

theorem failed_batch_cache_effect_witness:
  "length [Finite 0, Finite 91] = length [Finite 0, Finite 0]
   \<and> (1::nat) < length [Finite 0, Finite 91]
   \<and> valid_triple (Finite 0) (Finite 0) 5
   \<and> \<not> valid_triple (Finite 91) (Finite 0) 5
   \<and> (0::nat) < 1 \<and> (1::nat) \<le> 0 + 10000
   \<and> calculate_geohashes geohash_encode str_float_example
         (cache_after geohash_encode str_float_example empty_cache [])
         [Finite 0, Finite 91] [Finite 0, Finite 0] 5
       = (Inl (ValueError ''Latitude must be between -90 and 90, got 91.0''),
          \<lparr>entries = [((Finite 0, Finite 0, 5), ''s0000'')], hits = 0, misses = 2\<rparr>)
   \<and> calculate_geohashes geohash_encode str_float_example
         (cache_after geohash_encode str_float_example empty_cache [])
         (take 1 [Finite 0, Finite 91]) (take 1 [Finite 0, Finite 0]) 5
       = (Inr [''s0000''],
          \<lparr>entries = [((Finite 0, Finite 0, 5), ''s0000'')], hits = 0, misses = 1\<rparr>)
   \<and> calculate_single_geohash blank_encoder str_float_example
         \<lparr>entries = [((Finite 0, Finite 0, 5), ''s0000'')], hits = 0, misses = 2\<rparr>
         (Finite 0) (Finite 0) 5
       = (Inr ''s0000'',
          \<lparr>entries = [((Finite 0, Finite 0, 5), ''s0000'')], hits = 1, misses = 2\<rparr>)"
proof -
  have h1: "length [Finite 0, Finite 91] = length [Finite 0, Finite 0]" by simp
  have h2: "(1::nat) < length [Finite 0, Finite 91]" by simp
  have v: "valid_triple (Finite 0) (Finite 0) 5"
    by (simp add: valid_triple_def lat_in_range_def lon_in_range_def precision_in_range_def)
  have h3: "\<forall>j<1. valid_triple ([Finite 0, Finite 91] ! j) ([Finite 0, Finite 0] ! j) 5"
    using v by simp
  have h4: "\<not> valid_triple ([Finite 0, Finite 91] ! 1) ([Finite 0, Finite 0] ! 1) 5"
    by (simp add: valid_triple_def lat_in_range_def)
  have failed: "calculate_geohashes geohash_encode str_float_example
         (cache_after geohash_encode str_float_example empty_cache [])
         [Finite 0, Finite 91] [Finite 0, Finite 0] 5
       = (Inl (ValueError ''Latitude must be between -90 and 90, got 91.0''),
          \<lparr>entries = [((Finite 0, Finite 0, 5), ''s0000'')], hits = 0, misses = 2\<rparr>)"
    by (simp add: calculate_geohashes_def calculate_single_geohash_def lru_cache_call_def
        empty_cache_def maxsize_def calculate_single_geohash_body_def geohash_origin
        str_float_example_def str_int_def str_nat.simps digit_char_def)
  have pre: "calculate_geohashes geohash_encode str_float_example
         (cache_after geohash_encode str_float_example empty_cache [])
         (take 1 [Finite 0, Finite 91]) (take 1 [Finite 0, Finite 0]) 5
       = (Inr [''s0000''],
          \<lparr>entries = [((Finite 0, Finite 0, 5), ''s0000'')], hits = 0, misses = 1\<rparr>)"
    by (simp add: calculate_geohashes_def calculate_single_geohash_def lru_cache_call_def
        empty_cache_def maxsize_def calculate_single_geohash_body_def geohash_origin)
  note inst = failed_batch_cache_effect [OF h1 h2 h3 h4, of geohash_encode str_float_example "[]",
      unfolded Let_def]
  from inst have "\<forall>j<1. (1::nat) \<le> j + 10000 \<longrightarrow>
      (\<forall>enc' sf'.
         calculate_single_geohash enc' sf'
           (snd (calculate_geohashes geohash_encode str_float_example
              (cache_after geohash_encode str_float_example empty_cache [])
              [Finite 0, Finite 91] [Finite 0, Finite 0] 5))
           ([Finite 0, Finite 91] ! j) ([Finite 0, Finite 0] ! j) 5 =
           (Inr (geohash_encode ([Finite 0, Finite 91] ! j) ([Finite 0, Finite 0] ! j) 5),
            (snd (calculate_geohashes geohash_encode str_float_example
              (cache_after geohash_encode str_float_example empty_cache [])
              [Finite 0, Finite 91] [Finite 0, Finite 0] 5))
              \<lparr>entries := (([Finite 0, Finite 91] ! j, [Finite 0, Finite 0] ! j, 5),
                    geohash_encode ([Finite 0, Finite 91] ! j) ([Finite 0, Finite 0] ! j) 5)
                   # filter (\<lambda>e. fst e \<noteq> ([Finite 0, Finite 91] ! j, [Finite 0, Finite 0] ! j, 5))
                       (entries (snd (calculate_geohashes geohash_encode str_float_example
                          (cache_after geohash_encode str_float_example empty_cache [])
                          [Finite 0, Finite 91] [Finite 0, Finite 0] 5))),
               hits := Suc (hits (snd (calculate_geohashes geohash_encode str_float_example
                          (cache_after geohash_encode str_float_example empty_cache [])
                          [Finite 0, Finite 91] [Finite 0, Finite 0] 5)))\<rparr>))"
    by blast
  then have "calculate_single_geohash blank_encoder str_float_example
         \<lparr>entries = [((Finite 0, Finite 0, 5), ''s0000'')], hits = 0, misses = 2\<rparr>
         (Finite 0) (Finite 0) 5
       = (Inr ''s0000'',
          \<lparr>entries = [((Finite 0, Finite 0, 5), ''s0000'')], hits = 1, misses = 2\<rparr>)"
    by (simp add: failed [simplified] geohash_origin)
  with h1 h2 v h4 failed pre show ?thesis by simp
qed

text \<open>
  The claim as the specification words it fails: after the batch of a valid pair and
  a pair with latitude 91, run on a fresh cache, the cache is not the one that the
  batch of the valid pair alone leaves. The miss counters are 2 and 1.
\<close>

theorem failed_batch_state_counterexample:
  "valid_triple (Finite 0) (Finite 0) 5
   \<and> \<not> valid_triple (Finite 91) (Finite 0) 5
   \<and> snd (calculate_geohashes geohash_encode str_float_example empty_cache
        [Finite 0, Finite 91] [Finite 0, Finite 0] 5)
       = \<lparr>entries = [((Finite 0, Finite 0, 5), ''s0000'')], hits = 0, misses = 2\<rparr>
   \<and> snd (calculate_geohashes geohash_encode str_float_example empty_cache
        [Finite 0] [Finite 0] 5)
       = \<lparr>entries = [((Finite 0, Finite 0, 5), ''s0000'')], hits = 0, misses = 1\<rparr>
   \<and> snd (calculate_geohashes geohash_encode str_float_example empty_cache
        [Finite 0, Finite 91] [Finite 0, Finite 0] 5)
       \<noteq> snd (calculate_geohashes geohash_encode str_float_example empty_cache
        [Finite 0] [Finite 0] 5)"
  by (simp add: valid_triple_def lat_in_range_def lon_in_range_def precision_in_range_def
      calculate_geohashes_def calculate_single_geohash_def lru_cache_call_def
      empty_cache_def maxsize_def calculate_single_geohash_body_def geohash_origin)

section \<open>The encoder behind the batch function\<close>

text \<open>Facts about the encoder: the number of bits, the characters, and prefixes.\<close>

lemma bisect_bits_length: "length (bisect_bits k d w e s n lat lon) = k"
  by (induction k arbitrary: d w e s n) simp_all

lemma bisect_bits_take:
  "m \<le> k \<Longrightarrow> take m (bisect_bits k d w e s n lat lon) = bisect_bits m d w e s n lat lon"
proof (induction k arbitrary: m d w e s n)
  case 0
  then show ?case by simp
next
  case (Suc k)
  show ?case
  proof (cases m)
    case 0
    then show ?thesis by simp
  next
    case (Suc m')
    with Suc.prems have "m' \<le> k" by simp
    then show ?thesis unfolding Suc by (simp add: Suc.IH)
  qed
qed

lemma base32_chars_short: "length bs < 5 \<Longrightarrow> base32_chars bs = []"
  by (induction bs rule: base32_chars.induct) simp_all

lemma base32_chars_length: "length (base32_chars bs) = length bs div 5"
  by (induction bs rule: base32_chars.induct) simp_all

lemma base32_index: "k < 32 \<Longrightarrow> base32 ! k \<in> set base32"
  by (rule nth_mem) (simp add: base32_def)

lemma base32_chars_alphabet: "set (base32_chars bs) \<subseteq> set base32"
proof (induction bs rule: base32_chars.induct)
  case (1 b4 b3 b2 b1 b0 rest)
  have "16 * bit_value b4 + 8 * bit_value b3 + 4 * bit_value b2 + 2 * bit_value b1 + bit_value b0 < 32"
    by (simp add: bit_value_def)
  then have "base32 ! (16 * bit_value b4 + 8 * bit_value b3 + 4 * bit_value b2
      + 2 * bit_value b1 + bit_value b0) \<in> set base32"
    by (rule base32_index)
  with 1 show ?case by simp
qed simp_all

lemma base32_chars_take: "base32_chars (take (5 * k) bs) = take k (base32_chars bs)"
proof (induction bs arbitrary: k rule: base32_chars.induct)
  case (1 b4 b3 b2 b1 b0 rest)
  show ?case
  proof (cases k)
    case 0
    then show ?thesis by simp
  next
    case (Suc k')
    have "5 * Suc k' = Suc (Suc (Suc (Suc (Suc (5 * k')))))" by simp
    then have "take (5 * Suc k') (b4 # b3 # b2 # b1 # b0 # rest)
        = b4 # b3 # b2 # b1 # b0 # take (5 * k') rest"
      by (simp only: take_Suc_Cons)
    then show ?thesis unfolding Suc by (simp only: base32_chars.simps take_Suc_Cons 1)
  qed
qed (simp_all add: base32_chars_short)

lemma geohash_encode_length: "length (geohash_encode lat lon p) = nat p"
  by (simp add: geohash_encode_def base32_chars_length bisect_bits_length)

lemma geohash_encode_alphabet:
  "set (geohash_encode lat lon p) \<subseteq> set ''0123456789bcdefghjkmnpqrstuvwxyz''"
  using base32_chars_alphabet [of "bisect_bits (5 * nat p) True (- 180) 180 (- 90) 90 lat lon"]
  by (simp only: geohash_encode_def base32_def)

lemma geohash_encode_take:
  "p \<le> q \<Longrightarrow> geohash_encode lat lon p = take (nat p) (geohash_encode lat lon q)"
proof -
  assume "p \<le> q"
  then have "5 * nat p \<le> 5 * nat q" by simp
  then show ?thesis
    by (simp add: geohash_encode_def base32_chars_take [symmetric] bisect_bits_take)
qed

lemma geohash_encode_strict_prefix:
  assumes "0 \<le> p" and "p < q"
  shows "strict_prefix (geohash_encode lat lon p) (geohash_encode lat lon q)"
proof -
  have "prefix (geohash_encode lat lon p) (geohash_encode lat lon q)"
    using assms geohash_encode_take [of p q lat lon] by (simp add: take_is_prefix)
  moreover have "length (geohash_encode lat lon p) \<noteq> length (geohash_encode lat lon q)"
    using assms by (simp add: geohash_encode_length)
  ultimately show ?thesis by (auto simp add: strict_prefix_def)
qed

lemma batch_single_valid:
  "valid_triple lat lon p \<Longrightarrow>
   fst (calculate_geohashes enc sf (cache_after enc sf empty_cache calls) [lat] [lon] p)
     = Inr [enc lat lon p]"
  by (simp add: batch_fst [OF reachable_consistent] uncached_geohashes_def body_valid)

lemma geohash_san_francisco:
  "geohash_encode (Finite (332271534304605 / 8796093022208))
     (Finite (- 538406215061445 / 4398046511104)) 5 = ''9q8yy''"
  by (simp add: geohash_encode_def base32_def bit_value_def eval_nat_numeral)

lemma geohash_new_york:
  "geohash_encode (Finite (2864908607956399 / 70368744177664))
     (Finite (- 2603854640806101 / 35184372088832)) 5 = ''dr5re''"
  by (simp add: geohash_encode_def base32_def bit_value_def eval_nat_numeral)

lemma geohash_origin_1: "geohash_encode (Finite 0) (Finite 0) 1 = ''s''"
  by (simp add: geohash_encode_def base32_def bit_value_def eval_nat_numeral)

text \<open>
  Claim C1. For every latitude in \<open>[-90, 90]\<close>, every longitude in \<open>[-180, 180]\<close>
  and every precision in \<open>[1, 12]\<close>, the batch function called with the one
  latitude and the one longitude succeeds, whatever earlier calls filled the cache,
  and returns a list of one string; the string has exactly as many characters as
  the precision, all of them from the alphabet \<^verbatim>\<open>0123456789bcdefghjkmnpqrstuvwxyz\<close>.
\<close>

theorem single_pair_geohash_shape:
  "lat_in_range lat \<Longrightarrow> lon_in_range lon \<Longrightarrow> precision_in_range p \<Longrightarrow>
   \<exists>h. fst (calculate_geohashes geohash_encode sf
              (cache_after geohash_encode sf empty_cache calls) [lat] [lon] p) = Inr [h]
     \<and> int (length h) = p
     \<and> set h \<subseteq> set ''0123456789bcdefghjkmnpqrstuvwxyz''"
proof -
  assume "lat_in_range lat" and "lon_in_range lon" and p: "precision_in_range p"
  then have "valid_triple lat lon p" by (simp add: valid_triple_def)
  then have "fst (calculate_geohashes geohash_encode sf
      (cache_after geohash_encode sf empty_cache calls) [lat] [lon] p)
      = Inr [geohash_encode lat lon p]"
    by (rule batch_single_valid)
  moreover have "int (length (geohash_encode lat lon p)) = p"
    using p by (simp add: geohash_encode_length precision_in_range_def)
  ultimately show ?thesis using geohash_encode_alphabet [of lat lon p] by blast
qed

theorem single_pair_geohash_shape_witness:
  "lat_in_range (Finite 0) \<and> lon_in_range (Finite 0) \<and> precision_in_range 5
   \<and> fst (calculate_geohashes geohash_encode str_float_example
            (cache_after geohash_encode str_float_example empty_cache [])
            [Finite 0] [Finite 0] 5) = Inr [''s0000'']
   \<and> (\<exists>h. fst (calculate_geohashes geohash_encode str_float_example
              (cache_after geohash_encode str_float_example empty_cache [])
              [Finite 0] [Finite 0] 5) = Inr [h]
     \<and> int (length h) = 5
     \<and> set h \<subseteq> set ''0123456789bcdefghjkmnpqrstuvwxyz'')"
proof -
  have h1: "lat_in_range (Finite 0)" by (simp add: lat_in_range_def)
  have h2: "lon_in_range (Finite 0)" by (simp add: lon_in_range_def)
  have h3: "precision_in_range 5" by (simp add: precision_in_range_def)
  have v: "fst (calculate_geohashes geohash_encode str_float_example
            (cache_after geohash_encode str_float_example empty_cache [])
            [Finite 0] [Finite 0] 5) = Inr [''s0000'']"
    by (simp add: calculate_geohashes_def calculate_single_geohash_def lru_cache_call_def
        empty_cache_def maxsize_def calculate_single_geohash_body_def geohash_origin)
  from single_pair_geohash_shape [OF h1 h2 h3, of str_float_example "[]"] h1 h2 h3 v
  show ?thesis by blast
qed

text \<open>
  Claim C2. The reference values at precision 5. The coordinates are the doubles of
  the literals: \<^verbatim>\<open>37.7749\<close> is \<open>332271534304605 / 2^43\<close>, \<^verbatim>\<open>-122.4194\<close> is
  \<open>-538406215061445 / 2^42\<close>, \<^verbatim>\<open>40.7128\<close> is \<open>2864908607956399 / 2^46\<close> and
  \<^verbatim>\<open>-74.0060\<close> is \<open>-2603854640806101 / 2^45\<close>. Whatever earlier calls filled the
  cache, the batch function returns \<^verbatim>\<open>["9q8yy"]\<close> for San Francisco; for New York it
  returns \<^verbatim>\<open>["dr5re"]\<close>, which is not the \<^verbatim>\<open>["dr5rs"]\<close> of the docstring of
  \<^verbatim>\<open>calculate_geohashes\<close> and of the table \<^verbatim>\<open>EXPECTED_GEOHASHES_NY\<close>.
\<close>

theorem reference_values_precision_5:
  "fst (calculate_geohashes geohash_encode sf (cache_after geohash_encode sf empty_cache calls)
          [Finite (332271534304605 / 8796093022208)]
          [Finite (- 538406215061445 / 4398046511104)] 5) = Inr [''9q8yy'']
   \<and> fst (calculate_geohashes geohash_encode sf (cache_after geohash_encode sf empty_cache calls)
          [Finite (2864908607956399 / 70368744177664)]
          [Finite (- 2603854640806101 / 35184372088832)] 5) = Inr [''dr5re'']
   \<and> fst (calculate_geohashes geohash_encode sf (cache_after geohash_encode sf empty_cache calls)
          [Finite (2864908607956399 / 70368744177664)]
          [Finite (- 2603854640806101 / 35184372088832)] 5) \<noteq> Inr [''dr5rs'']"
proof -
  have sf: "valid_triple (Finite (332271534304605 / 8796093022208))
      (Finite (- 538406215061445 / 4398046511104)) 5"
    by (simp add: valid_triple_def lat_in_range_def lon_in_range_def precision_in_range_def)
  have ny: "valid_triple (Finite (2864908607956399 / 70368744177664))
      (Finite (- 2603854640806101 / 35184372088832)) 5"
    by (simp add: valid_triple_def lat_in_range_def lon_in_range_def precision_in_range_def)
  have a: "fst (calculate_geohashes geohash_encode sf (cache_after geohash_encode sf empty_cache calls)
          [Finite (332271534304605 / 8796093022208)]
          [Finite (- 538406215061445 / 4398046511104)] 5) = Inr [''9q8yy'']"
    by (simp only: batch_single_valid [OF sf] geohash_san_francisco)
  have b: "fst (calculate_geohashes geohash_encode sf (cache_after geohash_encode sf empty_cache calls)
          [Finite (2864908607956399 / 70368744177664)]
          [Finite (- 2603854640806101 / 35184372088832)] 5) = Inr [''dr5re'']"
    by (simp only: batch_single_valid [OF ny] geohash_new_york)
  have "(Inr [''dr5re''] :: error + string list) \<noteq> Inr [''dr5rs'']" by simp
  with a b show ?thesis by (simp only: simp_thms)
qed

text \<open>
  Claim C9. For a latitude and a longitude in range and two precisions in range,
  the smaller below the larger, the batch function called with the one pair returns,
  whatever earlier calls filled the cache at either call, two strings of which the
  one for the smaller precision is a proper prefix of the other; so the two are
  never equal.
\<close>

theorem precision_prefix:
  "lat_in_range lat \<Longrightarrow> lon_in_range lon \<Longrightarrow> precision_in_range p \<Longrightarrow>
   precision_in_range q \<Longrightarrow> p < q \<Longrightarrow>
   \<exists>hp hq.
     fst (calculate_geohashes geohash_encode sf
            (cache_after geohash_encode sf empty_cache calls) [lat] [lon] p) = Inr [hp]
     \<and> fst (calculate_geohashes geohash_encode sf
            (cache_after geohash_encode sf empty_cache calls') [lat] [lon] q) = Inr [hq]
     \<and> strict_prefix hp hq \<and> hp \<noteq> hq"
proof -
  assume lat: "lat_in_range lat" and lon: "lon_in_range lon"
    and p: "precision_in_range p" and q: "precision_in_range q" and "p < q"
  from lat lon p have "valid_triple lat lon p" by (simp add: valid_triple_def)
  then have rp: "fst (calculate_geohashes geohash_encode sf
      (cache_after geohash_encode sf empty_cache calls) [lat] [lon] p)
      = Inr [geohash_encode lat lon p]"
    by (rule batch_single_valid)
  from lat lon q have "valid_triple lat lon q" by (simp add: valid_triple_def)
  then have rq: "fst (calculate_geohashes geohash_encode sf
      (cache_after geohash_encode sf empty_cache calls') [lat] [lon] q)
      = Inr [geohash_encode lat lon q]"
    by (rule batch_single_valid)
  have "0 \<le> p" using p by (simp add: precision_in_range_def)
  then have sp: "strict_prefix (geohash_encode lat lon p) (geohash_encode lat lon q)"
    using \<open>p < q\<close> by (rule geohash_encode_strict_prefix)
  then have "geohash_encode lat lon p \<noteq> geohash_encode lat lon q" by auto
  with rp rq sp show ?thesis by blast
qed

theorem precision_prefix_witness:
  "lat_in_range (Finite 0) \<and> lon_in_range (Finite 0) \<and> precision_in_range 1
   \<and> precision_in_range 5 \<and> (1::int) < 5
   \<and> fst (calculate_geohashes geohash_encode str_float_example
            (cache_after geohash_encode str_float_example empty_cache [])
            [Finite 0] [Finite 0] 1) = Inr [''s'']
   \<and> fst (calculate_geohashes geohash_encode str_float_example
            (cache_after geohash_encode str_float_example empty_cache [])
            [Finite 0] [Finite 0] 5) = Inr [''s0000'']
   \<and> strict_prefix ''s'' ''s0000''"
proof -
  have h1: "lat_in_range (Finite 0)" by (simp add: lat_in_range_def)
  have h2: "lon_in_range (Finite 0)" by (simp add: lon_in_range_def)
  have h3: "precision_in_range 1" by (simp add: precision_in_range_def)
  have h4: "precision_in_range 5" by (simp add: precision_in_range_def)
  have h5: "(1::int) < 5" by simp
  have v1: "fst (calculate_geohashes geohash_encode str_float_example
            (cache_after geohash_encode str_float_example empty_cache [])
            [Finite 0] [Finite 0] 1) = Inr [''s'']"
    by (simp add: calculate_geohashes_def calculate_single_geohash_def lru_cache_call_def
        empty_cache_def maxsize_def calculate_single_geohash_body_def geohash_origin_1)
  have v5: "fst (calculate_geohashes geohash_encode str_float_example
            (cache_after geohash_encode str_float_example empty_cache [])
            [Finite 0] [Finite 0] 5) = Inr [''s0000'']"
    by (simp add: calculate_geohashes_def calculate_single_geohash_def lru_cache_call_def
        empty_cache_def maxsize_def calculate_single_geohash_body_def geohash_origin)
  from precision_prefix [OF h1 h2 h3 h4 h5, of str_float_example "[]" "[]"] v1 v5
  have "strict_prefix ''s'' ''s0000''" by auto
  with h1 h2 h3 h4 v1 v5 show ?thesis by simp
qed

end
